theory Spec2Isabelle
  imports Main "HOL-Library.Word"
begin

unbundle bit_operations_syntax

section \<open>Shared types of the Codec2 work model\<close>

text \<open>
  \<^verbatim>\<open>C2FrameData::flags_t\<close> is a \<^verbatim>\<open>uint32_t\<close> bit set. The three flags the component
  tests are constants of the Codec2 framework header: DROP_FRAME is bit 0, END_OF_STREAM
  is bit 1 and CODEC_CONFIG is bit 31.
\<close>

type_synonym flags_t = "32 word"

definition FLAG_DROP_FRAME :: flags_t where
  "FLAG_DROP_FRAME = 1"

definition FLAG_END_OF_STREAM :: flags_t where
  "FLAG_END_OF_STREAM = 2"

definition FLAG_CODEC_CONFIG :: flags_t where
  "FLAG_CODEC_CONFIG = 2147483648"

datatype c2_status_t =
    C2_OK | C2_BAD_VALUE | C2_BAD_INDEX | C2_CANNOT_DO | C2_DUPLICATE | C2_NOT_FOUND
  | C2_BAD_STATE | C2_BLOCKING | C2_CANCELED | C2_NO_MEMORY | C2_REFUSED | C2_TIMED_OUT
  | C2_OMITTED | C2_CORRUPTED | C2_NO_INIT

datatype c2_blocking_t = C2_DONT_BLOCK | C2_MAY_BLOCK

datatype DecodeStatus = kOk | kAborted | kError

datatype VideoCodec = H264 | VP8 | VP9 | HEVC

text \<open>
  An input buffer is one linear block (offset, size, the dma-buf descriptor and an
  identity standing for its bytes). An entry of \<^verbatim>\<open>input.buffers\<close> is a shared pointer,
  so it may be null: \<open>None\<close>.
\<close>

record C2LinearBlock =
  blk_offset :: nat
  blk_size :: nat
  blk_fd :: int
  blk_bytes :: nat

record C2WorkOrdinal =
  frameIndex :: "64 word"
  timestamp :: "64 word"

record ColorAspects =
  ca_range :: nat
  ca_primaries :: nat
  ca_transfer :: nat
  ca_matrix :: nat

record C2GraphicBuffer =
  gb_block :: nat
  gb_info :: "ColorAspects option"

record C2Worklet =
  output_flags :: flags_t
  output_buffers :: "C2GraphicBuffer list"
  output_ordinal :: C2WorkOrdinal

record C2Work =
  input_flags :: flags_t
  input_ordinal :: C2WorkOrdinal
  input_buffers :: "C2LinearBlock option list"
  worklets :: "C2Worklet list"
  result :: c2_status_t
  workletsProcessed :: nat

text \<open>Mask against 30 bits; the value fits an \<^verbatim>\<open>int32_t\<close>, so the cast keeps it.\<close>

definition frameIndexToBitstreamId :: "64 word \<Rightarrow> int" where
  "frameIndexToBitstreamId fi = uint (fi AND 1073741823)"

text \<open>
  \<^verbatim>\<open>front()\<close> of an empty container is undefined behaviour in the source; the model
  makes it a failure (\<open>None\<close>) of the function that reads it.
\<close>

definition isWorkDone :: "C2Work \<Rightarrow> bool option" where
  "isWorkDone work =
     (if input_flags work AND FLAG_END_OF_STREAM \<noteq> 0 then Some False
      else (case input_buffers work of
              [] \<Rightarrow> None
            | b # _ \<Rightarrow>
                (case worklets work of
                   [] \<Rightarrow> None
                 | wl # _ \<Rightarrow>
                     (let inputReleased = (b = None);
                          outputReturned = (output_buffers wl \<noteq> []);
                          ignoreOutput = (input_flags work AND FLAG_CODEC_CONFIG \<noteq> 0 \<or>
                                          output_flags wl AND FLAG_DROP_FRAME \<noteq> 0)
                      in Some (inputReleased \<and> (outputReturned \<or> ignoreOutput))))))"

section \<open>Rectangles and the visible rectangle of the decoder\<close>

text \<open>
  \<^verbatim>\<open>ui::Size\<close> and \<^verbatim>\<open>Rect\<close> hold \<^verbatim>\<open>int32_t\<close> fields; \<^verbatim>\<open>struct v4l2_rect\<close> holds
  signed \<^verbatim>\<open>left\<close>, \<^verbatim>\<open>top\<close> and unsigned \<^verbatim>\<open>width\<close>, \<^verbatim>\<open>height\<close>. All are 32-bit
  words here; a signed field is read with \<open>sint\<close>.
\<close>

record Size =
  width :: "32 word"
  height :: "32 word"










section \<open>Ordered maps (\<^verbatim>\<open>std::map\<close>)\<close>

text \<open>
  Both \<^verbatim>\<open>mWorksAtDecoder\<close> and \<^verbatim>\<open>mPendingDecodeCbs\<close> are \<^verbatim>\<open>std::map\<close>s keyed by
  the bitstream id: association lists kept in key order, which is the order the source
  iterates them in. \<^verbatim>\<open>insert\<close> keeps the entry already there.
\<close>

fun map_insert :: "int \<Rightarrow> 'v \<Rightarrow> (int \<times> 'v) list \<Rightarrow> (int \<times> 'v) list" where
  "map_insert k v [] = [(k, v)]"
| "map_insert k v ((k', v') # m) =
     (if k < k' then (k, v) # (k', v') # m
      else if k = k' then (k', v') # m
      else (k', v') # map_insert k v m)"

definition map_erase :: "int \<Rightarrow> (int \<times> 'v) list \<Rightarrow> (int \<times> 'v) list" where
  "map_erase k m = filter (\<lambda>kv. fst kv \<noteq> k) m"

definition map_update :: "int \<Rightarrow> 'v \<Rightarrow> (int \<times> 'v) list \<Rightarrow> (int \<times> 'v) list" where
  "map_update k v m = map (\<lambda>kv. if fst kv = k then (k, v) else kv) m"

section \<open>The decoder (\<^verbatim>\<open>V4L2Decoder\<close>)\<close>

datatype State = Idle | Decoding | Draining | Error

record ConstBitstreamBuffer =
  bb_id :: int
  bb_offset :: nat
  bb_size :: nat
  bb_fd :: int

text \<open>
  A decode request: the buffer is null (\<open>None\<close>) for the drain sentinel. The callback
  type is a parameter: the decoder only stores callbacks, runs them or posts them.
\<close>

record 'cb DecodeRequest =
  buffer :: "ConstBitstreamBuffer option"
  decodeCb :: "'cb"

text \<open>
  What a decoder operation does to the outside, in the order it does it: a callback run
  in place, a callback posted to the task runner, the error callback, the
  \<^verbatim>\<open>VIDIOC_DECODER_CMD\<close> ioctl (with \<^verbatim>\<open>start\<close>, and the number of buffers queued on the
  input queue at that moment), an input buffer queued to the device under its bitstream
  id, and a frame requested from the pool.
\<close>

datatype 'cb effect =
    RunCb 'cb DecodeStatus
  | PostCb 'cb DecodeStatus
  | RunErrorCb
  | IoctlDecoderCmd bool nat
  | QueueInputBuffer int
  | GetVideoFrame

text \<open>
  Modelled from the spec: the device queues (\<^verbatim>\<open>V4L2Queue\<close>) and the device are outside
  the source files. A queue counts its free and its queued buffers; a free buffer can be
  acquired while one is free; queueing moves a buffer from free to queued; stream-off
  drops every queued buffer back to free.
\<close>

record V4L2Queue =
  isStreaming :: bool
  freeBuffersCount :: nat
  queuedBuffersCount :: nat

definition streamoff :: "V4L2Queue \<Rightarrow> V4L2Queue" where
  "streamoff q =
     q\<lparr>isStreaming := False,
       freeBuffersCount := freeBuffersCount q + queuedBuffersCount q,
       queuedBuffersCount := 0\<rparr>"

definition streamon :: "bool \<Rightarrow> V4L2Queue \<Rightarrow> V4L2Queue" where
  "streamon ok q = (if ok then q\<lparr>isStreaming := True\<rparr> else q)"

definition queueBuffer :: "V4L2Queue \<Rightarrow> V4L2Queue" where
  "queueBuffer q =
     q\<lparr>freeBuffersCount := freeBuffersCount q - 1,
       queuedBuffersCount := queuedBuffersCount q + 1\<rparr>"

text \<open>
  The answers of the device. Every call the decoder makes to it is numbered (the
  decoder counts them in \<open>devCalls\<close>), and the answer may depend on the number: any
  sequence of answers is a device.
\<close>

record Device =
  decoderCmdOk :: "nat \<Rightarrow> bool"
  planeSize :: "nat \<Rightarrow> nat"
  queueDMABufOk :: "nat \<Rightarrow> bool"
  streamonOk :: "nat \<Rightarrow> bool"
  startPollingOk :: "nat \<Rightarrow> bool"

record 'cb V4L2Decoder =
  mState :: State
  mDecodeRequests :: "'cb DecodeRequest list"
  mPendingDecodeCbs :: "(int \<times> 'cb) list"
  mDrainCb :: "'cb option"
  mInputQueue :: V4L2Queue
  mOutputQueue :: V4L2Queue
  mFrameAtDevice :: "(nat \<times> nat) list"
  mVideoFramePool :: "nat option"
  polling :: bool
  devCalls :: nat
  effects :: "'cb effect list"

definition emit :: "'cb effect \<Rightarrow> 'cb V4L2Decoder \<Rightarrow> 'cb V4L2Decoder" where
  "emit e d = d\<lparr>effects := effects d @ [e]\<rparr>"

definition setState :: "State \<Rightarrow> 'cb V4L2Decoder \<Rightarrow> 'cb V4L2Decoder" where
  "setState newState d =
     (if mState d = newState then d
      else if mState d = Error then d
      else d\<lparr>mState :=
                (case newState of
                   Draining \<Rightarrow> (if mState d \<noteq> Decoding then Error else Draining)
                 | _ \<Rightarrow> newState)\<rparr>)"

definition onError :: "'cb V4L2Decoder \<Rightarrow> 'cb V4L2Decoder" where
  "onError d = emit RunErrorCb (setState Error d)"

definition sendV4L2DecoderCmd ::
  "Device \<Rightarrow> bool \<Rightarrow> 'cb V4L2Decoder \<Rightarrow> bool \<times> 'cb V4L2Decoder" where
  "sendV4L2DecoderCmd dev start d =
     (decoderCmdOk dev (devCalls d),
      emit (IoctlDecoderCmd start (queuedBuffersCount (mInputQueue d)))
           (d\<lparr>devCalls := devCalls d + 1\<rparr>))"

text \<open>
  The loop of \<^verbatim>\<open>pumpDecodeRequest\<close>. Every iteration that goes round again has popped
  the head request. On the two error exits of a decode request the popped request and
  its callback are gone, as in the source.
\<close>

function pumpLoop :: "Device \<Rightarrow> 'cb V4L2Decoder \<Rightarrow> 'cb V4L2Decoder" where
  "pumpLoop dev d =
     (case mDecodeRequests d of
        [] \<Rightarrow> d
      | request # rest \<Rightarrow>
          (case buffer request of
             None \<Rightarrow>
               if queuedBuffersCount (mInputQueue d) > 0 then d
               else
                 (case sendV4L2DecoderCmd dev False (d\<lparr>mDecodeRequests := rest\<rparr>) of
                    (ok, d1) \<Rightarrow>
                      if \<not> ok then onError (emit (RunCb (decodeCb request) kError) d1)
                      else setState Draining (d1\<lparr>mDrainCb := Some (decodeCb request)\<rparr>))
           | Some buf \<Rightarrow>
               if freeBuffersCount (mInputQueue d) = 0 then d
               else if bb_size buf > planeSize dev (devCalls d)
               then onError (d\<lparr>mDecodeRequests := rest, devCalls := devCalls d + 1\<rparr>)
               else if \<not> queueDMABufOk dev (devCalls d + 1)
               then onError (d\<lparr>mDecodeRequests := rest, devCalls := devCalls d + 2\<rparr>)
               else pumpLoop dev
                      (emit (QueueInputBuffer (bb_id buf))
                         (d\<lparr>mDecodeRequests := rest,
                            devCalls := devCalls d + 2,
                            mInputQueue := queueBuffer (mInputQueue d),
                            mPendingDecodeCbs :=
                              map_insert (bb_id buf) (decodeCb request) (mPendingDecodeCbs d)\<rparr>))))"
  by pat_completeness auto
termination
  by (relation "measure (\<lambda>(dev, d). length (mDecodeRequests d))") (auto simp: emit_def)

definition pumpDecodeRequest :: "Device \<Rightarrow> 'cb V4L2Decoder \<Rightarrow> 'cb V4L2Decoder" where
  "pumpDecodeRequest dev d = (if mState d \<noteq> Decoding then d else pumpLoop dev d)"

definition decode ::
  "Device \<Rightarrow> ConstBitstreamBuffer \<Rightarrow> 'cb \<Rightarrow> 'cb V4L2Decoder \<Rightarrow> 'cb V4L2Decoder" where
  "decode dev buf cb d =
     (if mState d = Error then emit (PostCb cb kError) d
      else
        (let d1 = (if mState d = Idle then setState Decoding d else d)
         in pumpDecodeRequest dev
              (d1\<lparr>mDecodeRequests :=
                    mDecodeRequests d1 @ [\<lparr>buffer = Some buf, decodeCb = cb\<rparr>]\<rparr>)))"

definition drain :: "Device \<Rightarrow> 'cb \<Rightarrow> 'cb V4L2Decoder \<Rightarrow> 'cb V4L2Decoder" where
  "drain dev drainCb d =
     (case mState d of
        Idle \<Rightarrow> emit (PostCb drainCb kOk) d
      | Decoding \<Rightarrow>
          pumpDecodeRequest dev
            (d\<lparr>mDecodeRequests :=
                  mDecodeRequests d @ [\<lparr>buffer = None, decodeCb = drainCb\<rparr>]\<rparr>)
      | Draining \<Rightarrow> emit (PostCb drainCb kError) d
      | Error \<Rightarrow> emit (PostCb drainCb kError) d)"

definition tryFetchVideoFrame :: "'cb V4L2Decoder \<Rightarrow> 'cb V4L2Decoder" where
  "tryFetchVideoFrame d =
     (if mVideoFramePool d = None then onError d
      else if freeBuffersCount (mOutputQueue d) = 0 then d
      else emit GetVideoFrame d)"

text \<open>
  \<^verbatim>\<open>flush\<close>, in its three stages. First every pending decode callback is run with
  Aborted, in key order, the map is cleared, and the drain callback (if any) is run with
  Aborted; running a once-callback consumes it, so \<^verbatim>\<open>mDrainCb\<close> is null afterwards.
  Then polling stops, both queues are streamed off and on again (the output queue only
  if it was streaming) and a frame is fetched when there is a pool. Last, polling is
  started again; the decoder becomes Idle, or reports an error when polling does not
  start. The request queue \<^verbatim>\<open>mDecodeRequests\<close> is not touched.
\<close>

definition abortPendingCallbacks :: "'cb V4L2Decoder \<Rightarrow> 'cb V4L2Decoder" where
  "abortPendingCallbacks d =
     (let d1 = foldl (\<lambda>acc item. emit (RunCb (snd item) kAborted) acc) d (mPendingDecodeCbs d);
          d2 = d1\<lparr>mPendingDecodeCbs := []\<rparr>
      in case mDrainCb d2 of
           Some cb \<Rightarrow> emit (RunCb cb kAborted) (d2\<lparr>mDrainCb := None\<rparr>)
         | None \<Rightarrow> d2)"

definition restartQueues :: "Device \<Rightarrow> 'cb V4L2Decoder \<Rightarrow> 'cb V4L2Decoder" where
  "restartQueues dev d =
     (let isOutputStreaming = isStreaming (mOutputQueue d);
          d4 = d\<lparr>polling := False,
                  mOutputQueue := streamoff (mOutputQueue d),
                  mFrameAtDevice := [],
                  mInputQueue := streamoff (mInputQueue d)\<rparr>;
          d5 = d4\<lparr>mInputQueue := streamon (streamonOk dev (devCalls d4)) (mInputQueue d4),
                  devCalls := devCalls d4 + 1\<rparr>;
          d6 = (if isOutputStreaming
                then d5\<lparr>mOutputQueue := streamon (streamonOk dev (devCalls d5)) (mOutputQueue d5),
                        devCalls := devCalls d5 + 1\<rparr>
                else d5)
      in if mVideoFramePool d6 \<noteq> None then tryFetchVideoFrame d6 else d6)"

definition flush :: "Device \<Rightarrow> 'cb V4L2Decoder \<Rightarrow> 'cb V4L2Decoder" where
  "flush dev d =
     (if mState d = Idle then d
      else if mState d = Error then d
      else
        (let d7 = restartQueues dev (abortPendingCallbacks d)
         in if \<not> startPollingOk dev (devCalls d7)
            then onError (d7\<lparr>devCalls := devCalls d7 + 1\<rparr>)
            else setState Idle (d7\<lparr>devCalls := devCalls d7 + 1, polling := True\<rparr>)))"

text \<open>What an operation adds to the decoder's effects.\<close>

definition newEffects ::
  "('cb V4L2Decoder \<Rightarrow> 'cb V4L2Decoder) \<Rightarrow> 'cb V4L2Decoder \<Rightarrow> 'cb effect list" where
  "newEffects operation d = drop (length (effects d)) (effects (operation d))"

text \<open>
  A \<^verbatim>\<open>VIDIOC_DECODER_CMD\<close> ioctl is in order when it is START, or when it is STOP and no
  buffer was queued on the input queue at the moment it was issued.
\<close>

definition stop_is_safe :: "'cb effect \<Rightarrow> bool" where
  "stop_is_safe e = (case e of IoctlDecoderCmd start queued \<Rightarrow> start \<or> queued = 0 | _ \<Rightarrow> True)"




section \<open>The component (\<^verbatim>\<open>V4L2DecodeComponent\<close>)\<close>

datatype ComponentState = STOPPED | RUNNING | RELEASED | ERROR

datatype drain_mode_t = DRAIN_COMPONENT_WITH_EOS | DRAIN_COMPONENT_NO_EOS | DRAIN_CHAIN

text \<open>
  The callbacks the component hands to the decoder: \<^verbatim>\<open>onDecodeDone\<close> bound to a
  bitstream id, and \<^verbatim>\<open>onDrainDone\<close>.
\<close>

datatype DecodeCB = OnDecodeDone int | OnDrainDone

datatype task =
    RunCallbackTask DecodeCB DecodeStatus
  | PumpPendingWorksTask
  | DrainTask

datatype listener_call =
    onWorkDone_nb "C2Work list"
  | onError_nb c2_status_t

text \<open>
  What the component asks of its interface and of the bitstream parser: the codec, the
  colour aspects the parser finds in a block (if any), the status of configuring them,
  the status of looking up the block pool, and the pool the factory then makes.
\<close>

record Interface =
  getVideoCodec :: "VideoCodec option"
  parseCodedColorAspects :: "C2LinearBlock \<Rightarrow> ColorAspects option"
  config :: "ColorAspects \<Rightarrow> c2_status_t"
  GetCodec2BlockPool :: c2_status_t
  VideoFramePool_Create :: "Size \<Rightarrow> nat \<Rightarrow> nat option"

text \<open>
  The component's fields. \<open>mListener\<close> is the listener's identity or null. The
  decoder is owned by the component; every task modelled here runs on the decoder
  sequence while the decoder exists. \<open>listenerCalls\<close> records the calls made to a
  listener and \<open>postedTasks\<close> the tasks posted to the decoder sequence, in order.
\<close>

record Component =
  mComponentState :: ComponentState
  mListener :: "nat option"
  mDecoderThreadRunning :: bool
  mPendingWorks :: "C2Work list"
  mWorksAtDecoder :: "(int \<times> C2Work) list"
  mOutputBitstreamIds :: "int list"
  mIsDraining :: bool
  mIsSecure :: bool
  mPendingColorAspectsChange :: bool
  mPendingColorAspectsChangeFrameIndex :: "64 word"
  mDecoder :: "DecodeCB V4L2Decoder"
  listenerCalls :: "(nat \<times> listener_call) list"
  postedTasks :: "task list"

definition reportError :: "c2_status_t \<Rightarrow> Component \<Rightarrow> Component" where
  "reportError error c =
     (if mComponentState c = ERROR then c
      else
        (case mListener c of
           None \<Rightarrow> c\<lparr>mComponentState := ERROR\<rparr>
         | Some l \<Rightarrow>
             c\<lparr>mComponentState := ERROR,
               listenerCalls := listenerCalls c @ [(l, onError_nb error)]\<rparr>))"

definition reportWork :: "C2Work \<Rightarrow> Component \<Rightarrow> bool \<times> Component" where
  "reportWork work c =
     (case mListener c of
        None \<Rightarrow> (False, c)
      | Some l \<Rightarrow> (True, c\<lparr>listenerCalls := listenerCalls c @ [(l, onWorkDone_nb [work])]\<rparr>))"

definition resetFront :: "C2LinearBlock option list \<Rightarrow> C2LinearBlock option list" where
  "resetFront bs = (case bs of [] \<Rightarrow> [] | b # rest \<Rightarrow> None # rest)"

definition reportAbandonedWorks :: "Component \<Rightarrow> Component" where
  "reportAbandonedWorks c =
     (let abandonedWorks =
            map (\<lambda>work. work\<lparr>result := C2_NOT_FOUND,
                              input_buffers := resetFront (input_buffers work)\<rparr>)
                (mPendingWorks c @ map snd (mWorksAtDecoder c));
          c1 = c\<lparr>mPendingWorks := [], mWorksAtDecoder := []\<rparr>
      in if abandonedWorks \<noteq> []
         then (case mListener c1 of
                 None \<Rightarrow> c1
               | Some l \<Rightarrow>
                   c1\<lparr>listenerCalls := listenerCalls c1 @ [(l, onWorkDone_nb abandonedWorks)]\<rparr>)
         else c1)"

definition reportWorkIfFinished :: "int \<Rightarrow> Component \<Rightarrow> (bool \<times> Component) option" where
  "reportWorkIfFinished bitstreamId c =
     (if mIsDraining c \<and> length (mWorksAtDecoder c) = 1 then Some (False, c)
      else
        (case map_of (mWorksAtDecoder c) bitstreamId of
           None \<Rightarrow> Some (True, c)
         | Some work \<Rightarrow>
             (case isWorkDone work of
                None \<Rightarrow> None
              | Some False \<Rightarrow> Some (False, c)
              | Some True \<Rightarrow>
                  (case worklets work of
                     [] \<Rightarrow> None
                   | wl # wls \<Rightarrow>
                       Some (reportWork
                               (work\<lparr>result := C2_OK,
                                     workletsProcessed := length (worklets work),
                                     worklets :=
                                       (if output_flags wl AND FLAG_DROP_FRAME \<noteq> 0
                                        then wl\<lparr>output_flags := 0\<rparr> # wls
                                        else wl # wls)\<rparr>)
                               (c\<lparr>mWorksAtDecoder :=
                                     map_erase bitstreamId (mWorksAtDecoder c)\<rparr>))))))"

text \<open>
  The loop of \<^verbatim>\<open>pumpReportWork\<close>, over the id queue: it stops at the first id that is
  not reported and leaves that id at the front.
\<close>

fun pumpReportLoop :: "int list \<Rightarrow> Component \<Rightarrow> Component option" where
  "pumpReportLoop [] c = Some (c\<lparr>mOutputBitstreamIds := []\<rparr>)"
| "pumpReportLoop (i # ids) c =
     (case reportWorkIfFinished i c of
        None \<Rightarrow> None
      | Some (reported, c1) \<Rightarrow>
          if \<not> reported then Some (c1\<lparr>mOutputBitstreamIds := i # ids\<rparr>)
          else pumpReportLoop ids c1)"

definition pumpReportWork :: "Component \<Rightarrow> Component option" where
  "pumpReportWork c = pumpReportLoop (mOutputBitstreamIds c) c"

text \<open>
  \<^verbatim>\<open>onDecodeDone\<close>. The work is looked up first (the source asserts it is there and then
  dereferences the iterator: a missing id is a failure of the model). The work is
  changed in place, in the map.
\<close>

definition onDecodeDone :: "int \<Rightarrow> DecodeStatus \<Rightarrow> Component \<Rightarrow> Component option" where
  "onDecodeDone bitstreamId status c =
     (case map_of (mWorksAtDecoder c) bitstreamId of
        None \<Rightarrow> None
      | Some work \<Rightarrow>
          (case status of
             kAborted \<Rightarrow>
               (case input_buffers work of
                  [] \<Rightarrow> None
                | b # bs \<Rightarrow>
                    (case worklets work of
                       [] \<Rightarrow> None
                     | wl # wls \<Rightarrow>
                         pumpReportWork
                           (c\<lparr>mWorksAtDecoder :=
                                 map_update bitstreamId
                                   (work\<lparr>input_buffers := None # bs,
                                         worklets :=
                                           wl\<lparr>output_flags :=
                                                 output_flags wl AND FLAG_DROP_FRAME\<rparr> # wls\<rparr>)
                                   (mWorksAtDecoder c),
                              mOutputBitstreamIds := mOutputBitstreamIds c @ [bitstreamId]\<rparr>)))
           | kError \<Rightarrow> Some (reportError C2_CORRUPTED c)
           | kOk \<Rightarrow>
               (case input_buffers work of
                  [] \<Rightarrow> None
                | b # bs \<Rightarrow>
                    pumpReportWork
                      (c\<lparr>mWorksAtDecoder :=
                            map_update bitstreamId (work\<lparr>input_buffers := None # bs\<rparr>)
                              (mWorksAtDecoder c),
                         mOutputBitstreamIds :=
                           (if input_flags work AND FLAG_CODEC_CONFIG \<noteq> 0
                            then mOutputBitstreamIds c @ [bitstreamId]
                            else mOutputBitstreamIds c)\<rparr>))))"

definition reportEOSWork :: "Component \<Rightarrow> (bool \<times> Component) option" where
  "reportEOSWork c =
     (case find (\<lambda>kv. input_flags (snd kv) AND FLAG_END_OF_STREAM \<noteq> 0) (mWorksAtDecoder c) of
        None \<Rightarrow> Some (False, c)
      | Some (k, eosWork) \<Rightarrow>
          (case worklets eosWork of
             [] \<Rightarrow> None
           | wl # wls \<Rightarrow>
               (let c1 = c\<lparr>mWorksAtDecoder := map_erase k (mWorksAtDecoder c)\<rparr>;
                    c2 = (if mWorksAtDecoder c1 \<noteq> [] then reportAbandonedWorks c1 else c1)
                in Some (reportWork
                           (eosWork\<lparr>result := C2_OK,
                                    workletsProcessed := length (worklets eosWork),
                                    worklets := wl\<lparr>output_flags := FLAG_END_OF_STREAM\<rparr> # wls,
                                    input_buffers := resetFront (input_buffers eosWork)\<rparr>)
                           c2))))"

definition onDrainDone :: "DecodeStatus \<Rightarrow> Component \<Rightarrow> Component option" where
  "onDrainDone status c =
     (case status of
        kAborted \<Rightarrow> Some c
      | kError \<Rightarrow> Some (reportError C2_CORRUPTED c)
      | kOk \<Rightarrow>
          (case reportEOSWork (c\<lparr>mIsDraining := False\<rparr>) of
             None \<Rightarrow> None
           | Some (reported, c1) \<Rightarrow>
               if \<not> reported then Some (reportError C2_CORRUPTED c1)
               else Some (c1\<lparr>postedTasks := postedTasks c1 @ [PumpPendingWorksTask]\<rparr>)))"

text \<open>
  Calling the decoder. A decoder operation runs callbacks of the component in place
  (\<open>RunCb\<close>, \<open>RunErrorCb\<close>) and posts others. None of the component's callbacks
  calls back into the decoder or reads it, and the decoder reads nothing of the
  component, so the component's side of the call is the decoder's effects handled in
  their order: a callback run in place is run, the error callback is
  \<^verbatim>\<open>reportError(C2_CORRUPTED)\<close> (as bound in \<^verbatim>\<open>startTask\<close>), a posted callback joins the
  posted tasks.
\<close>

definition runCallback :: "DecodeCB \<Rightarrow> DecodeStatus \<Rightarrow> Component \<Rightarrow> Component option" where
  "runCallback cb status c =
     (case cb of
        OnDecodeDone bitstreamId \<Rightarrow> onDecodeDone bitstreamId status c
      | OnDrainDone \<Rightarrow> onDrainDone status c)"

fun dispatch :: "DecodeCB effect list \<Rightarrow> Component \<Rightarrow> Component option" where
  "dispatch [] c = Some c"
| "dispatch (RunCb cb status # es) c =
     (case runCallback cb status c of None \<Rightarrow> None | Some c1 \<Rightarrow> dispatch es c1)"
| "dispatch (PostCb cb status # es) c =
     dispatch es (c\<lparr>postedTasks := postedTasks c @ [RunCallbackTask cb status]\<rparr>)"
| "dispatch (RunErrorCb # es) c = dispatch es (reportError C2_CORRUPTED c)"
| "dispatch (IoctlDecoderCmd start n # es) c = dispatch es c"
| "dispatch (QueueInputBuffer i # es) c = dispatch es c"
| "dispatch (GetVideoFrame # es) c = dispatch es c"

definition callDecoder ::
  "(DecodeCB V4L2Decoder \<Rightarrow> DecodeCB V4L2Decoder) \<Rightarrow> Component \<Rightarrow> Component option" where
  "callDecoder operation c =
     dispatch (newEffects operation (mDecoder c)) (c\<lparr>mDecoder := operation (mDecoder c)\<rparr>)"

text \<open>
  One iteration of the loop of \<^verbatim>\<open>pumpPendingWorks\<close>, for a non-empty pending queue: the
  component after it, and whether the loop goes on (\<open>False\<close>: the function returned).
  The source keeps a raw pointer to the work and then moves the work into the map; when
  the id is already in the map the work is destroyed with the rejected pair, and reading
  its buffer afterwards is a failure of the model. \<^verbatim>\<open>std::make_unique\<close> does not return
  null, so the branch that tests the new bitstream buffer for null is left out.
\<close>

definition pumpPendingStep ::
  "Device \<Rightarrow> Interface \<Rightarrow> Component \<Rightarrow> (bool \<times> Component) option" where
  "pumpPendingStep dev intf c =
     (case mPendingWorks c of
        [] \<Rightarrow> None
      | pendingWork # pendingRest \<Rightarrow>
          (case input_buffers pendingWork of
             [] \<Rightarrow> None
           | front # _ \<Rightarrow>
               (let bitstreamId = frameIndexToBitstreamId (frameIndex (input_ordinal pendingWork));
                    isCSDWork = (input_flags pendingWork AND FLAG_CODEC_CONFIG \<noteq> 0);
                    isEOSWork = (input_flags pendingWork AND FLAG_END_OF_STREAM \<noteq> 0);
                    inserted = (map_of (mWorksAtDecoder c) bitstreamId = None);
                    c1 = c\<lparr>mPendingWorks := pendingRest,
                           mWorksAtDecoder :=
                             map_insert bitstreamId pendingWork (mWorksAtDecoder c)\<rparr>;
                    afterDecode =
                      (case front of
                         None \<Rightarrow> Some (True, c1)
                       | Some linearBlock \<Rightarrow>
                           if \<not> inserted then None
                           else
                             (let parsed =
                                    (if isCSDWork \<and> \<not> mIsSecure c1 \<and> getVideoCodec intf = Some H264
                                     then parseCodedColorAspects intf linearBlock else None);
                                  status = (case parsed of
                                              None \<Rightarrow> C2_OK
                                            | Some codedAspects \<Rightarrow> config intf codedAspects)
                              in if status \<noteq> C2_OK then Some (False, reportError status c1)
                                 else
                                   (let c2 = (case parsed of
                                                None \<Rightarrow> c1
                                              | Some codedAspects \<Rightarrow>
                                                  c1\<lparr>mPendingColorAspectsChange := True,
                                                     mPendingColorAspectsChangeFrameIndex :=
                                                       frameIndex (input_ordinal pendingWork)\<rparr>)
                                    in map_option (Pair True)
                                         (callDecoder
                                            (decode dev
                                               \<lparr>bb_id = bitstreamId,
                                                bb_offset = blk_offset linearBlock,
                                                bb_size = blk_size linearBlock,
                                                bb_fd = blk_fd linearBlock\<rparr>
                                               (OnDecodeDone bitstreamId))
                                            c2))))
                in case afterDecode of
                     None \<Rightarrow> None
                   | Some (False, c3) \<Rightarrow> Some (False, c3)
                   | Some (True, c3) \<Rightarrow>
                       (case (if isEOSWork
                              then map_option (\<lambda>c4. c4\<lparr>mIsDraining := True\<rparr>)
                                     (callDecoder (drain dev OnDrainDone) c3)
                              else Some c3) of
                          None \<Rightarrow> None
                        | Some c5 \<Rightarrow>
                            if isCSDWork \<and> front = None
                            then map_option (\<lambda>r. (True, snd r)) (reportWorkIfFinished bitstreamId c5)
                            else Some (True, c5)))))"

text \<open>
  No step of the component lets the pending queue grow, and an iteration of the pump
  pops its head: the loop of \<^verbatim>\<open>pumpPendingWorks\<close> terminates.
\<close>

lemma reportError_pending: "mPendingWorks (reportError e c) = mPendingWorks c"
  by (simp add: reportError_def split: option.splits)

lemma reportWork_pending: "mPendingWorks (snd (reportWork w c)) = mPendingWorks c"
  by (simp add: reportWork_def split: option.splits)

lemma reportAbandonedWorks_pending: "mPendingWorks (reportAbandonedWorks c) = []"
  by (simp add: reportAbandonedWorks_def Let_def split: option.splits)

lemma reportWorkIfFinished_pending:
  "reportWorkIfFinished i c = Some (b, c') \<Longrightarrow> mPendingWorks c' = mPendingWorks c"
  by (auto simp: reportWorkIfFinished_def reportWork_def split: if_splits option.splits bool.splits list.splits)

lemma pumpReportLoop_pending:
  "pumpReportLoop ids c = Some c' \<Longrightarrow> mPendingWorks c' = mPendingWorks c"
proof (induction ids arbitrary: c)
  case Nil
  then show ?case by auto
next
  case (Cons i ids)
  from Cons.prems obtain reported c1 where
    step: "reportWorkIfFinished i c = Some (reported, c1)"
    by (auto split: option.splits)
  have keep: "mPendingWorks c1 = mPendingWorks c"
    using step by (rule reportWorkIfFinished_pending)
  show ?case
  proof (cases reported)
    case True
    with Cons.prems step have "pumpReportLoop ids c1 = Some c'" by simp
    then have "mPendingWorks c' = mPendingWorks c1" by (rule Cons.IH)
    with keep show ?thesis by simp
  next
    case False
    with Cons.prems step have "c' = c1\<lparr>mOutputBitstreamIds := i # ids\<rparr>" by simp
    with keep show ?thesis by simp
  qed
qed

lemma onDecodeDone_pending:
  "onDecodeDone i st c = Some c' \<Longrightarrow> mPendingWorks c' = mPendingWorks c"
  by (auto simp: onDecodeDone_def pumpReportWork_def reportError_pending
           split: option.splits DecodeStatus.splits list.splits
           dest!: pumpReportLoop_pending)

lemma reportEOSWork_pending:
  "reportEOSWork c = Some (b, c') \<Longrightarrow> length (mPendingWorks c') \<le> length (mPendingWorks c)"
  by (auto simp: reportEOSWork_def Let_def reportWork_def reportAbandonedWorks_pending
           split: option.splits list.splits if_splits prod.splits)

lemma onDrainDone_pending:
  "onDrainDone st c = Some c' \<Longrightarrow> length (mPendingWorks c') \<le> length (mPendingWorks c)"
  by (auto simp: onDrainDone_def reportError_pending
           split: DecodeStatus.splits option.splits if_splits
           dest!: reportEOSWork_pending)

lemma dispatch_pending:
  "dispatch es c = Some c' \<Longrightarrow> length (mPendingWorks c') \<le> length (mPendingWorks c)"
proof (induction es c rule: dispatch.induct)
  case (2 cb status es c)
  then show ?case
    by (auto simp: runCallback_def split: option.splits DecodeCB.splits
             dest!: onDecodeDone_pending onDrainDone_pending)
qed (auto simp: reportError_pending)

lemma callDecoder_pending:
  "callDecoder operation c = Some c' \<Longrightarrow> length (mPendingWorks c') \<le> length (mPendingWorks c)"
  by (auto simp: callDecoder_def Let_def dest!: dispatch_pending)

lemma pumpPendingStep_pending:
  "pumpPendingStep dev intf c = Some (b, c') \<Longrightarrow>
   length (mPendingWorks c') < length (mPendingWorks c)"
  by (auto simp: pumpPendingStep_def Let_def reportError_pending
           split: list.splits option.splits if_splits bool.splits prod.splits
           dest!: callDecoder_pending reportWorkIfFinished_pending)

function pumpPendingLoop :: "Device \<Rightarrow> Interface \<Rightarrow> Component \<Rightarrow> Component option" where
  "pumpPendingLoop dev intf c =
     (if mPendingWorks c = [] \<or> mIsDraining c then Some c
      else
        (case pumpPendingStep dev intf c of
           None \<Rightarrow> None
         | Some (continue, c1) \<Rightarrow>
             if \<not> continue then Some c1 else pumpPendingLoop dev intf c1))"
  by pat_completeness auto
termination
  by (relation "measure (\<lambda>(dev, intf, c). length (mPendingWorks c))")
     (auto dest: pumpPendingStep_pending)

definition pumpPendingWorks :: "Device \<Rightarrow> Interface \<Rightarrow> Component \<Rightarrow> Component option" where
  "pumpPendingWorks dev intf c =
     (if mComponentState c \<noteq> RUNNING then Some c else pumpPendingLoop dev intf c)"

text \<open>
  \<^verbatim>\<open>queueTask\<close>. Past the first check the work has exactly one worklet, so
  \<^verbatim>\<open>worklets.front()\<close> exists.
\<close>

definition queueTask :: "Device \<Rightarrow> Interface \<Rightarrow> C2Work \<Rightarrow> Component \<Rightarrow> Component option" where
  "queueTask dev intf work c =
     (if length (worklets work) \<noteq> 1 \<or> length (input_buffers work) > 1
      then Some (snd (reportWork (work\<lparr>result := C2_CORRUPTED\<rparr>) c))
      else
        (let work1 =
               (case worklets work of
                  [] \<Rightarrow> work
                | wl # wls \<Rightarrow>
                    work\<lparr>worklets :=
                           wl\<lparr>output_flags := 0, output_buffers := [],
                              output_ordinal := input_ordinal work\<rparr> # wls\<rparr>)
         in if input_buffers work1 = []
            then
              (if input_flags work1 AND FLAG_END_OF_STREAM = 0 \<and>
                  input_flags work1 AND FLAG_CODEC_CONFIG = 0
               then Some (reportError C2_BAD_VALUE c)
               else pumpPendingWorks dev intf
                      (c\<lparr>mPendingWorks :=
                            mPendingWorks c @ [work1\<lparr>input_buffers := [None]\<rparr>]\<rparr>))
            else pumpPendingWorks dev intf (c\<lparr>mPendingWorks := mPendingWorks c @ [work1]\<rparr>)))"

definition flushTask :: "Device \<Rightarrow> Component \<Rightarrow> Component option" where
  "flushTask dev c =
     (case callDecoder (flush dev) c of
        None \<Rightarrow> None
      | Some c1 \<Rightarrow> Some ((reportAbandonedWorks c1)\<lparr>mIsDraining := False\<rparr>))"

definition drainTask :: "Device \<Rightarrow> Component \<Rightarrow> Component option" where
  "drainTask dev c =
     (if mPendingWorks c \<noteq> []
      then Some (c\<lparr>mPendingWorks :=
                     butlast (mPendingWorks c) @
                     [(last (mPendingWorks c))
                        \<lparr>input_flags :=
                           input_flags (last (mPendingWorks c)) OR FLAG_END_OF_STREAM\<rparr>]\<rparr>)
      else if mWorksAtDecoder c \<noteq> []
      then map_option (\<lambda>c1. c1\<lparr>mIsDraining := True\<rparr>) (callDecoder (drain dev OnDrainDone) c)
      else Some c)"

definition drain_nb :: "drain_mode_t \<Rightarrow> Component \<Rightarrow> c2_status_t \<times> Component" where
  "drain_nb mode c =
     (if mComponentState c \<noteq> RUNNING then (C2_BAD_STATE, c)
      else
        (case mode of
           DRAIN_CHAIN \<Rightarrow> (C2_OMITTED, c)
         | DRAIN_COMPONENT_NO_EOS \<Rightarrow> (C2_OK, c)
         | DRAIN_COMPONENT_WITH_EOS \<Rightarrow> (C2_OK, c\<lparr>postedTasks := postedTasks c @ [DrainTask]\<rparr>)))"

definition setListenerTask :: "nat option \<Rightarrow> Component \<Rightarrow> Component" where
  "setListenerTask listener c = c\<lparr>mListener := listener\<rparr>"

text \<open>
  \<^verbatim>\<open>setListener_vb\<close>. With the decoder thread running the source posts
  \<^verbatim>\<open>setListenerTask\<close> and waits until it has run: the call returns after the task, so
  the model runs the task in place.
\<close>

definition setListener_vb ::
  "nat option \<Rightarrow> c2_blocking_t \<Rightarrow> Component \<Rightarrow> c2_status_t \<times> Component" where
  "setListener_vb listener mayBlock c =
     (let currentState = mComponentState c
      in if currentState = RELEASED \<or> (currentState = RUNNING \<and> listener \<noteq> None)
         then (C2_BAD_STATE, c)
         else if currentState = RUNNING \<and> mayBlock \<noteq> C2_MAY_BLOCK then (C2_BLOCKING, c)
         else if \<not> mDecoderThreadRunning c then (C2_OK, c\<lparr>mListener := listener\<rparr>)
         else (C2_OK, setListenerTask listener c))"

text \<open>
  Modelled from the spec: \<^verbatim>\<open>getArea\<close> is a helper of the common library that is not
  among the source files. The spec bounds the output resolution by 4096\<times>4096; the area
  is the product of the two signed dimensions when it fits an \<^verbatim>\<open>int\<close>, and nothing
  otherwise (the caller then takes \<^verbatim>\<open>INT_MAX\<close>).
\<close>

definition getArea :: "Size \<Rightarrow> int option" where
  "getArea sz =
     (let area = sint (width sz) * sint (height sz)
      in if - 2147483648 \<le> area \<and> area \<le> 2147483647 then Some area else None)"

definition INT_MAX :: int where
  "INT_MAX = 2147483647"

definition kMaximumSupportedArea :: int where
  "kMaximumSupportedArea = 4096 * 4096"

text \<open>
  \<^verbatim>\<open>getVideoFramePool\<close>. \<open>sharedThisAlive\<close> says whether \<^verbatim>\<open>weak_from_this().lock()\<close>
  gave a pointer, that is whether the component is still owned by someone. The pixel
  format is only handed on to the pool factory. The result is the pool (or null) and
  the component.
\<close>

definition getVideoFramePool ::
  "Interface \<Rightarrow> bool \<Rightarrow> Size \<Rightarrow> nat \<Rightarrow> Component \<Rightarrow> nat option \<times> Component" where
  "getVideoFramePool intf sharedThisAlive sz numBuffers c =
     (if \<not> sharedThisAlive then (None, c)
      else if (case getArea sz of None \<Rightarrow> INT_MAX | Some a \<Rightarrow> a) > kMaximumSupportedArea
      then (None, reportError C2_BAD_VALUE c)
      else if GetCodec2BlockPool intf \<noteq> C2_OK
      then (None, reportError (GetCodec2BlockPool intf) c)
      else (VideoFramePool_Create intf sz numBuffers, c))"

section \<open>The done condition in the spec's words\<close>

text \<open>
  "A work is done iff (a) input is released and (b) either the output buffer is present,
  or the work is CSD, or DROP_FRAME is set."
\<close>

definition done_as_claimed :: "C2Work \<Rightarrow> bool" where
  "done_as_claimed work =
     ((case input_buffers work of [] \<Rightarrow> False | b # _ \<Rightarrow> b = None) \<and>
      (case worklets work of
         [] \<Rightarrow> False
       | wl # _ \<Rightarrow>
           output_buffers wl \<noteq> [] \<or> input_flags work AND FLAG_CODEC_CONFIG \<noteq> 0 \<or>
           output_flags wl AND FLAG_DROP_FRAME \<noteq> 0))"

section \<open>Concrete works, decoders and components\<close>

definition ordinal_of :: "64 word \<Rightarrow> C2WorkOrdinal" where
  "ordinal_of n = \<lparr>frameIndex = n, timestamp = n\<rparr>"

definition emptyWorklet :: C2Worklet where
  "emptyWorklet = \<lparr>output_flags = 0, output_buffers = [], output_ordinal = ordinal_of 0\<rparr>"

definition exampleBlock :: C2LinearBlock where
  "exampleBlock = \<lparr>blk_offset = 0, blk_size = 100, blk_fd = 3, blk_bytes = 0\<rparr>"

text \<open>A work with the given flags, frame index and input buffers, and one worklet.\<close>

definition exampleWork :: "flags_t \<Rightarrow> 64 word \<Rightarrow> C2LinearBlock option list \<Rightarrow> C2Work" where
  "exampleWork flags n bufs =
     \<lparr>input_flags = flags, input_ordinal = ordinal_of n, input_buffers = bufs,
      worklets = [emptyWorklet], result = C2_OK, workletsProcessed = 0\<rparr>"

definition exampleQueue :: "nat \<Rightarrow> nat \<Rightarrow> V4L2Queue" where
  "exampleQueue free queued =
     \<lparr>isStreaming = True, freeBuffersCount = free, queuedBuffersCount = queued\<rparr>"

text \<open>A decoder in a given state with nothing in flight and sixteen free input buffers.\<close>

definition exampleDecoder :: "State \<Rightarrow> 'cb V4L2Decoder" where
  "exampleDecoder st =
     \<lparr>mState = st, mDecodeRequests = [], mPendingDecodeCbs = [], mDrainCb = None,
      mInputQueue = exampleQueue 16 0, mOutputQueue = exampleQueue 0 0,
      mFrameAtDevice = [], mVideoFramePool = None, polling = True, devCalls = 0,
      effects = []\<rparr>"

text \<open>A running component with listener 7, no work anywhere, over such a decoder.\<close>

definition exampleComponent :: "State \<Rightarrow> Component" where
  "exampleComponent st =
     \<lparr>mComponentState = RUNNING, mListener = Some 7, mDecoderThreadRunning = True,
      mPendingWorks = [], mWorksAtDecoder = [], mOutputBitstreamIds = [],
      mIsDraining = False, mIsSecure = False, mPendingColorAspectsChange = False,
      mPendingColorAspectsChangeFrameIndex = 0, mDecoder = exampleDecoder st,
      listenerCalls = [], postedTasks = []\<rparr>"

text \<open>A device whose every call succeeds, and an interface for a VP9 stream.\<close>

definition exampleDevice :: Device where
  "exampleDevice =
     \<lparr>decoderCmdOk = (\<lambda>n. True), planeSize = (\<lambda>n. 1048576), queueDMABufOk = (\<lambda>n. True),
      streamonOk = (\<lambda>n. True), startPollingOk = (\<lambda>n. True)\<rparr>"

definition exampleInterface :: Interface where
  "exampleInterface =
     \<lparr>getVideoCodec = Some VP9, parseCodedColorAspects = (\<lambda>b. None), config = (\<lambda>a. C2_OK),
      GetCodec2BlockPool = C2_OK, VideoFramePool_Create = (\<lambda>sz n. Some 1)\<rparr>"

lemmas example_defs =
  ordinal_of_def emptyWorklet_def exampleBlock_def exampleWork_def exampleQueue_def
  exampleDecoder_def exampleComponent_def exampleDevice_def exampleInterface_def
  FLAG_DROP_FRAME_def FLAG_END_OF_STREAM_def FLAG_CODEC_CONFIG_def

text \<open>A device on which polling never starts again.\<close>

definition pollFailDevice :: Device where
  "pollFailDevice = exampleDevice\<lparr>startPollingOk := (\<lambda>n. False)\<rparr>"


text \<open>
  Components for the drain task: one that holds a work back while a drain is under
  way, one with a single work at the decoder, and one whose only pending work carries
  END_OF_STREAM, before and after an iteration of the pump.
\<close>

definition eosWork :: C2Work where
  "eosWork = exampleWork FLAG_END_OF_STREAM 5 [None]"

definition queuedBehindDrain :: Component where
  "queuedBehindDrain =
     (exampleComponent Draining)
        \<lparr>mIsDraining := True,
         mPendingWorks := [exampleWork 0 5 [Some exampleBlock]],
         mWorksAtDecoder := [(4, exampleWork FLAG_END_OF_STREAM 4 [None])]\<rparr>"

definition oneWorkAtDecoder :: Component where
  "oneWorkAtDecoder =
     (exampleComponent Decoding)\<lparr>mWorksAtDecoder := [(1, exampleWork 0 1 [None])]\<rparr>"

definition eosPending :: Component where
  "eosPending = (exampleComponent Idle)\<lparr>mPendingWorks := [eosWork]\<rparr>"

definition eosPumped :: Component where
  "eosPumped =
     (exampleComponent Idle)
        \<lparr>mWorksAtDecoder := [(5, eosWork)],
         mIsDraining := True,
         mDecoder := (exampleDecoder Idle)\<lparr>effects := [PostCb OnDrainDone kOk]\<rparr>,
         postedTasks := [RunCallbackTask OnDrainDone kOk]\<rparr>"

section \<open>Properties of the visible rectangle\<close>






section \<open>The done-check\<close>

text \<open>
  C4 as stated (the done-check is true exactly when the input is released and the output
  is present, or the work is CSD, or DROP_FRAME is set, with no EOS exception inside it)
  fails: for a work that carries END_OF_STREAM and CODEC_CONFIG and whose input is
  released, the condition holds and \<open>isWorkDone\<close> is false.
\<close>

theorem C4_isWorkDone_counterexample:
  "isWorkDone (exampleWork (FLAG_END_OF_STREAM OR FLAG_CODEC_CONFIG) 4 [None]) = Some False
   \<and> done_as_claimed (exampleWork (FLAG_END_OF_STREAM OR FLAG_CODEC_CONFIG) 4 [None])"
  by (simp add: isWorkDone_def done_as_claimed_def example_defs)

text \<open>
  C4, amended. For every work item with an input-buffer entry and a worklet,
  \<open>isWorkDone\<close> is true if and only if the work does not carry END_OF_STREAM, its
  input buffer is released and either the output buffer list is non-empty, or the work
  carries CODEC_CONFIG, or the output flags contain DROP_FRAME: the EOS exception is
  inside the done-check. \<open>reportWorkIfFinished\<close> has a gate of its own: while draining
  with exactly one item in \<open>mWorksAtDecoder\<close> it reports nothing and changes nothing.
\<close>

theorem C4_isWorkDone:
  assumes "input_buffers work \<noteq> []" and "worklets work \<noteq> []"
  shows "isWorkDone work
           = Some (input_flags work AND FLAG_END_OF_STREAM = 0 \<and> done_as_claimed work)
         \<and> (mIsDraining c \<and> length (mWorksAtDecoder c) = 1
              \<longrightarrow> reportWorkIfFinished i c = Some (False, c))"
  using assms
  by (auto simp: isWorkDone_def done_as_claimed_def reportWorkIfFinished_def Let_def
           split: list.splits)

text \<open>
  A concrete case of C4: a released CSD work is done; while draining, the only work at
  the decoder is not reported by \<open>reportWorkIfFinished\<close>.
\<close>

theorem C4_isWorkDone_witness:
  "isWorkDone (exampleWork FLAG_CODEC_CONFIG 0 [None]) = Some True
   \<and> reportWorkIfFinished 4
        ((exampleComponent Decoding)
           \<lparr>mIsDraining := True,
            mWorksAtDecoder := [(4, exampleWork FLAG_END_OF_STREAM 4 [None])]\<rparr>)
      = Some (False,
              (exampleComponent Decoding)
                \<lparr>mIsDraining := True,
                 mWorksAtDecoder := [(4, exampleWork FLAG_END_OF_STREAM 4 [None])]\<rparr>)"
  using C4_isWorkDone [of "exampleWork FLAG_CODEC_CONFIG 0 [None]"
      "(exampleComponent Decoding)
           \<lparr>mIsDraining := True,
            mWorksAtDecoder := [(4, exampleWork FLAG_END_OF_STREAM 4 [None])]\<rparr>" 4]
  by (simp add: done_as_claimed_def example_defs)

section \<open>Setting the listener\<close>

text \<open>
  C3 as stated (while Running, a blocking call succeeds for any listener, null or not)
  fails: a non-null listener is refused with BAD_STATE while Running.
\<close>

theorem C3_setListener_counterexample:
  "setListener_vb (Some 5) C2_MAY_BLOCK (exampleComponent Idle)
     = (C2_BAD_STATE, exampleComponent Idle)"
  by (simp add: setListener_vb_def exampleComponent_def)

text \<open>
  C3, amended. For every call to \<open>setListener_vb\<close> while the component state is
  Running: a non-null listener is refused with BAD_STATE (whatever \<open>mayBlock\<close> is); for
  the null listener the call returns BLOCKING when \<open>mayBlock\<close> is not C2_MAY_BLOCK, and
  otherwise returns OK and installs the null listener. Nothing else changes.
\<close>

theorem C3_setListener_running:
  assumes "mComponentState c = RUNNING"
  shows "setListener_vb listener mayBlock c =
           (if listener \<noteq> None then (C2_BAD_STATE, c)
            else if mayBlock \<noteq> C2_MAY_BLOCK then (C2_BLOCKING, c)
            else (C2_OK, c\<lparr>mListener := None\<rparr>))"
  using assms by (simp add: setListener_vb_def setListenerTask_def)

text \<open>A concrete case of C3: the null listener on a running component.\<close>

theorem C3_setListener_running_witness:
  "setListener_vb None C2_DONT_BLOCK (exampleComponent Idle) = (C2_BLOCKING, exampleComponent Idle)
   \<and> setListener_vb None C2_MAY_BLOCK (exampleComponent Idle)
       = (C2_OK, (exampleComponent Idle)\<lparr>mListener := None\<rparr>)"
  using C3_setListener_running [of "exampleComponent Idle" None C2_DONT_BLOCK]
        C3_setListener_running [of "exampleComponent Idle" None C2_MAY_BLOCK]
  by (simp add: exampleComponent_def)

section \<open>Queueing an invalid work\<close>

text \<open>
  C2 as stated (a work with two worklets is reported CORRUPTED and the component goes to
  Error) fails: the work is reported with CORRUPTED and the component stays Running.
\<close>

theorem C2_queueTask_counterexample:
  "map_option (\<lambda>c. (mComponentState c, listenerCalls c))
     (queueTask exampleDevice exampleInterface
        ((exampleWork 0 1 [Some exampleBlock])\<lparr>worklets := [emptyWorklet, emptyWorklet]\<rparr>)
        (exampleComponent Idle))
   = Some (RUNNING,
           [(7, onWorkDone_nb
                  [(exampleWork 0 1 [Some exampleBlock])
                     \<lparr>worklets := [emptyWorklet, emptyWorklet], result := C2_CORRUPTED\<rparr>])])"
  by (simp add: queueTask_def reportWork_def exampleComponent_def exampleWork_def)

text \<open>
  C2, amended. For every work submitted via \<open>queueTask\<close> whose worklet count is not
  exactly 1 or whose input-buffer count exceeds 1, the component reports that single
  work to the listener (when one is installed) with result CORRUPTED and changes nothing
  else: the component state is left as it was and the work is not queued.
\<close>

theorem C2_queueTask_invalid:
  assumes "length (worklets work) \<noteq> 1 \<or> length (input_buffers work) > 1"
  shows "queueTask dev intf work c =
           Some (case mListener c of
                   None \<Rightarrow> c
                 | Some l \<Rightarrow>
                     c\<lparr>listenerCalls :=
                         listenerCalls c @ [(l, onWorkDone_nb [work\<lparr>result := C2_CORRUPTED\<rparr>])]\<rparr>)"
  using assms by (auto simp: queueTask_def reportWork_def split: option.splits)

text \<open>A concrete case of C2: a work with two input buffers.\<close>

theorem C2_queueTask_invalid_witness:
  "queueTask exampleDevice exampleInterface
     (exampleWork 0 1 [Some exampleBlock, Some exampleBlock]) (exampleComponent Idle)
   = Some ((exampleComponent Idle)
             \<lparr>listenerCalls :=
                [(7, onWorkDone_nb
                       [(exampleWork 0 1 [Some exampleBlock, Some exampleBlock])
                          \<lparr>result := C2_CORRUPTED\<rparr>])]\<rparr>)"
  using C2_queueTask_invalid [of "exampleWork 0 1 [Some exampleBlock, Some exampleBlock]"
      exampleDevice exampleInterface "exampleComponent Idle"]
  by (simp add: exampleComponent_def exampleWork_def)

section \<open>Decode completion with status Aborted\<close>

text \<open>
  C1. On an Aborted completion \<open>onDecodeDone\<close> releases the input buffer, pushes the
  bitstream id and pumps the reports, but it masks the output flags with DROP_FRAME
  (\<^verbatim>\<open>flags & FLAG_DROP_FRAME\<close>) where marking needs \<^verbatim>\<open>flags | FLAG_DROP_FRAME\<close>. For a work
  queued by \<open>queueTask\<close> (output flags 0) the flags stay 0: DROP_FRAME is not set, the
  work is not done, nothing is reported and the id stays at the front of the queue.
\<close>

theorem C1_onDecodeDone_aborted:
  "map_option
     (\<lambda>c. (map (\<lambda>kv. (fst kv, input_buffers (snd kv), map output_flags (worklets (snd kv))))
              (mWorksAtDecoder c),
           mOutputBitstreamIds c, listenerCalls c))
     (onDecodeDone 1 kAborted
        ((exampleComponent Decoding)
           \<lparr>mWorksAtDecoder := [(1, exampleWork 0 1 [Some exampleBlock])]\<rparr>))
   = Some ([(1, [None], [0])], [1], [])"
  by (simp add: onDecodeDone_def pumpReportWork_def reportWorkIfFinished_def isWorkDone_def
        map_update_def example_defs)

section \<open>The frame pool request\<close>

text \<open>
  C8 as stated (every oversized request reports BadValue and moves to Error) fails: when
  the component is no longer owned (\<^verbatim>\<open>weak_from_this().lock()\<close> gives null) an 8192\<times>8192
  request returns null and reports nothing; the state stays as it was.
\<close>

theorem C8_getVideoFramePool_counterexample:
  "getVideoFramePool exampleInterface False \<lparr>width = 8192, height = 8192\<rparr> 8
     (exampleComponent Decoding) = (None, exampleComponent Decoding)
   \<and> mComponentState (exampleComponent Decoding) = RUNNING"
  by (simp add: getVideoFramePool_def exampleComponent_def)

text \<open>
  C8, amended. For every frame-pool request made while the component is still alive
  and whose requested area (width times height) exceeds 4096\<times>4096, the component runs
  \<open>reportError\<close> with C2_BAD_VALUE and returns no pool: the state is Error afterwards,
  and the listener (if installed, and if the state was not Error already) receives
  \<open>onError\<close> with C2_BAD_VALUE. A request on a component that is no longer alive returns
  no pool and reports nothing.
\<close>

theorem C8_getVideoFramePool_oversized:
  assumes "sharedThisAlive" and "sint (width sz) * sint (height sz) > 4096 * 4096"
  shows "getVideoFramePool intf sharedThisAlive sz numBuffers c = (None, reportError C2_BAD_VALUE c)
         \<and> mComponentState (reportError C2_BAD_VALUE c) = ERROR
         \<and> listenerCalls (reportError C2_BAD_VALUE c) =
             (if mComponentState c = ERROR then listenerCalls c
              else (case mListener c of
                      None \<Rightarrow> listenerCalls c
                    | Some l \<Rightarrow> listenerCalls c @ [(l, onError_nb C2_BAD_VALUE)]))
         \<and> getVideoFramePool intf False sz numBuffers c = (None, c)"
  using assms
  by (auto simp: getVideoFramePool_def getArea_def INT_MAX_def kMaximumSupportedArea_def
        reportError_def Let_def split: option.splits)

text \<open>A concrete case of C8: 8192\<times>8192 on a live, running component.\<close>

theorem C8_getVideoFramePool_oversized_witness:
  "getVideoFramePool exampleInterface True \<lparr>width = 8192, height = 8192\<rparr> 8
     (exampleComponent Decoding)
   = (None, (exampleComponent Decoding)
              \<lparr>mComponentState := ERROR, listenerCalls := [(7, onError_nb C2_BAD_VALUE)]\<rparr>)"
  using C8_getVideoFramePool_oversized [of True "\<lparr>width = 8192, height = 8192\<rparr>"
      exampleInterface 8 "exampleComponent Decoding"]
  by (simp add: reportError_def exampleComponent_def)

section \<open>The component's callbacks leave the decoder alone\<close>

lemma reportError_decoder: "mDecoder (reportError e c) = mDecoder c"
  by (simp add: reportError_def split: option.splits)

lemma reportAbandonedWorks_decoder: "mDecoder (reportAbandonedWorks c) = mDecoder c"
  by (simp add: reportAbandonedWorks_def Let_def split: option.splits)

lemma reportWorkIfFinished_decoder:
  "reportWorkIfFinished i c = Some (b, c') \<Longrightarrow> mDecoder c' = mDecoder c"
  by (auto simp: reportWorkIfFinished_def reportWork_def
           split: if_splits option.splits bool.splits list.splits)

lemma pumpReportLoop_decoder:
  "pumpReportLoop ids c = Some c' \<Longrightarrow> mDecoder c' = mDecoder c"
proof (induction ids arbitrary: c)
  case Nil
  then show ?case by auto
next
  case (Cons i ids)
  from Cons.prems obtain reported c1 where
    step: "reportWorkIfFinished i c = Some (reported, c1)"
    by (auto split: option.splits)
  have keep: "mDecoder c1 = mDecoder c"
    using step by (rule reportWorkIfFinished_decoder)
  show ?case
  proof (cases reported)
    case True
    with Cons.prems step have "pumpReportLoop ids c1 = Some c'" by simp
    then have "mDecoder c' = mDecoder c1" by (rule Cons.IH)
    with keep show ?thesis by simp
  next
    case False
    with Cons.prems step have "c' = c1\<lparr>mOutputBitstreamIds := i # ids\<rparr>" by simp
    with keep show ?thesis by simp
  qed
qed

lemma onDecodeDone_decoder:
  "onDecodeDone i st c = Some c' \<Longrightarrow> mDecoder c' = mDecoder c"
  by (auto simp: onDecodeDone_def pumpReportWork_def reportError_decoder
           split: option.splits DecodeStatus.splits list.splits
           dest!: pumpReportLoop_decoder)

lemma reportEOSWork_decoder:
  "reportEOSWork c = Some (b, c') \<Longrightarrow> mDecoder c' = mDecoder c"
  by (auto simp: reportEOSWork_def Let_def reportWork_def reportAbandonedWorks_decoder
           split: option.splits list.splits if_splits prod.splits)

lemma onDrainDone_decoder:
  "onDrainDone st c = Some c' \<Longrightarrow> mDecoder c' = mDecoder c"
  by (auto simp: onDrainDone_def reportError_decoder
           split: DecodeStatus.splits option.splits if_splits
           dest!: reportEOSWork_decoder)

lemma dispatch_decoder:
  "dispatch es c = Some c' \<Longrightarrow> mDecoder c' = mDecoder c"
proof (induction es c rule: dispatch.induct)
  case (2 cb status es c)
  then show ?case
    by (auto simp: runCallback_def split: option.splits DecodeCB.splits
             dest!: onDecodeDone_decoder onDrainDone_decoder)
qed (auto simp: reportError_decoder)

lemma callDecoder_decoder:
  "callDecoder operation c = Some c' \<Longrightarrow> mDecoder c' = operation (mDecoder c)"
  by (auto simp: callDecoder_def Let_def dest!: dispatch_decoder)

section \<open>What the decoder's operations emit\<close>

text \<open>
  Every operation only appends to the effects, and every STOP it appends was issued with
  no buffer queued on the input queue.
\<close>

lemma pumpLoop_effects:
  "\<exists>new. effects (pumpLoop dev d) = effects d @ new \<and> list_all stop_is_safe new"
proof (induction dev d rule: pumpLoop.induct)
  case (1 dev d)
  show ?case
  proof (cases "mDecodeRequests d")
    case Nil
    then show ?thesis by (subst pumpLoop.simps) simp
  next
    case (Cons request rest)
    show ?thesis
    proof (cases "buffer request")
      case None
      with Cons show ?thesis
        by (subst pumpLoop.simps)
           (simp add: sendV4L2DecoderCmd_def onError_def emit_def setState_def stop_is_safe_def)
    next
      case (Some buf)
      show ?thesis
      proof (cases "freeBuffersCount (mInputQueue d) = 0 \<or> bb_size buf > planeSize dev (devCalls d)
                    \<or> \<not> queueDMABufOk dev (devCalls d + 1)")
        case True
        with Cons Some show ?thesis
          by (subst pumpLoop.simps)
             (auto simp: onError_def emit_def setState_def stop_is_safe_def)
      next
        case False
        then have c1: "freeBuffersCount (mInputQueue d) \<noteq> 0"
          and c2: "\<not> planeSize dev (devCalls d) < bb_size buf"
          and c3: "\<not> \<not> queueDMABufOk dev (devCalls d + 1)" by auto
        from "1.IH" [OF Cons Some c1 c2 c3] obtain new where
          "effects (pumpLoop dev
                      (emit (QueueInputBuffer (bb_id buf))
                         (d\<lparr>mDecodeRequests := rest,
                            devCalls := devCalls d + 2,
                            mInputQueue := queueBuffer (mInputQueue d),
                            mPendingDecodeCbs :=
                              map_insert (bb_id buf) (decodeCb request) (mPendingDecodeCbs d)\<rparr>)))
           = effects d @ QueueInputBuffer (bb_id buf) # new" and "list_all stop_is_safe new"
          by (auto simp: emit_def)
        with Cons Some False show ?thesis
          by (subst pumpLoop.simps) (simp add: stop_is_safe_def)
      qed
    qed
  qed
qed

lemma newEffects_append:
  "effects (operation d) = effects d @ new \<Longrightarrow> newEffects operation d = new"
  by (simp add: newEffects_def)

lemma pumpDecodeRequest_effects:
  "\<exists>new. effects (pumpDecodeRequest dev d) = effects d @ new \<and> list_all stop_is_safe new"
  using pumpLoop_effects [of dev d] by (simp add: pumpDecodeRequest_def)

lemma decode_effects:
  "\<exists>new. effects (decode dev buf cb d) = effects d @ new \<and> list_all stop_is_safe new"
proof (cases "mState d = Error")
  case True
  then show ?thesis by (simp add: decode_def emit_def stop_is_safe_def)
next
  case False
  then show ?thesis
    using pumpDecodeRequest_effects
      [of dev "(if mState d = Idle then setState Decoding d else d)
                 \<lparr>mDecodeRequests :=
                    mDecodeRequests (if mState d = Idle then setState Decoding d else d) @
                    [\<lparr>buffer = Some buf, decodeCb = cb\<rparr>]\<rparr>"]
    by (auto simp: decode_def Let_def setState_def)
qed

lemma drain_effects:
  "\<exists>new. effects (drain dev cb d) = effects d @ new \<and> list_all stop_is_safe new"
proof (cases "mState d")
  case Decoding
  then show ?thesis
    using pumpDecodeRequest_effects
      [of dev "d\<lparr>mDecodeRequests := mDecodeRequests d @ [\<lparr>buffer = None, decodeCb = cb\<rparr>]\<rparr>"]
    by (simp add: drain_def)
qed (simp_all add: drain_def emit_def stop_is_safe_def)

lemma abort_all:
  "foldl (\<lambda>acc item. emit (RunCb (snd item) kAborted) acc) d xs
     = d\<lparr>effects := effects d @ map (\<lambda>item. RunCb (snd item) kAborted) xs\<rparr>"
  by (induction xs arbitrary: d) (simp_all add: emit_def)

lemma list_all_aborts:
  "list_all stop_is_safe (map (\<lambda>item. RunCb (snd item) kAborted) xs)"
  by (induction xs) (simp_all add: stop_is_safe_def)

lemma abortPendingCallbacks_state: "mState (abortPendingCallbacks d) = mState d"
  unfolding abortPendingCallbacks_def Let_def abort_all
  by (simp add: emit_def split: option.splits)

lemma abortPendingCallbacks_effects:
  "\<exists>new. effects (abortPendingCallbacks d) = effects d @ new \<and> list_all stop_is_safe new"
  unfolding abortPendingCallbacks_def Let_def abort_all
  by (simp add: emit_def list_all_aborts stop_is_safe_def split: option.splits)

lemma restartQueues_state: "mState (restartQueues dev d) = mState d"
  by (simp add: restartQueues_def Let_def tryFetchVideoFrame_def emit_def)

lemma restartQueues_effects:
  "\<exists>new. effects (restartQueues dev d) = effects d @ new \<and> list_all stop_is_safe new"
  by (simp add: restartQueues_def Let_def tryFetchVideoFrame_def emit_def stop_is_safe_def)

lemma flush_effects:
  "\<exists>new. effects (flush dev d) = effects d @ new \<and> list_all stop_is_safe new"
proof -
  obtain n1 where n1: "effects (abortPendingCallbacks d) = effects d @ n1"
    "list_all stop_is_safe n1"
    using abortPendingCallbacks_effects by blast
  obtain n2 where n2: "effects (restartQueues dev (abortPendingCallbacks d))
                         = effects (abortPendingCallbacks d) @ n2" "list_all stop_is_safe n2"
    using restartQueues_effects by blast
  show ?thesis
    using n1 n2
    by (simp add: flush_def Let_def onError_def emit_def setState_def stop_is_safe_def)
qed

lemma flush_state: "mState (flush dev d) = Idle \<or> mState (flush dev d) = Error"
  by (cases "mState d")
     (simp_all add: flush_def Let_def onError_def emit_def setState_def
        restartQueues_state abortPendingCallbacks_state)

lemma flush_state_polling:
  "mState d \<noteq> Error \<Longrightarrow> \<forall>n. startPollingOk dev n \<Longrightarrow> mState (flush dev d) = Idle"
  by (cases "mState d")
     (simp_all add: flush_def Let_def setState_def
        restartQueues_state abortPendingCallbacks_state)

lemma flush_again: "flush dev' (flush dev d) = flush dev d"
  using flush_state [of dev d] by (auto simp: flush_def [of dev'])

section \<open>Drain safety\<close>

text \<open>
  C5. In every execution of the decoder the \<^verbatim>\<open>VIDIOC_DECODER_CMD\<close> STOP ioctl is issued
  only at a moment when the input queue's queued-buffer count is zero: whatever the
  state of the decoder and the answers of the device, every \<^verbatim>\<open>VIDIOC_DECODER_CMD\<close> that
  \<open>pumpDecodeRequest\<close>, \<open>decode\<close>, \<open>drain\<close> or \<open>flush\<close> issues is START or finds the
  count at zero (the only STOP is the one of \<open>pumpLoop\<close>). And a drain sentinel at the
  head of the request queue is not processed while an input buffer remains queued: the
  pump leaves the decoder as it is.
\<close>

theorem C5_stop_only_without_queued_input:
  "list_all stop_is_safe (newEffects (pumpDecodeRequest dev) d)
   \<and> list_all stop_is_safe (newEffects (decode dev buf cb) d)
   \<and> list_all stop_is_safe (newEffects (drain dev cb) d)
   \<and> list_all stop_is_safe (newEffects (flush dev) d)
   \<and> (mState d = Decoding \<and> mDecodeRequests d = request # rest \<and> buffer request = None
        \<and> queuedBuffersCount (mInputQueue d) > 0
       \<longrightarrow> pumpDecodeRequest dev d = d)"
proof -
  have "list_all stop_is_safe (newEffects (pumpDecodeRequest dev) d)"
    using pumpDecodeRequest_effects [of dev d] by (auto simp: newEffects_append)
  moreover have "list_all stop_is_safe (newEffects (decode dev buf cb) d)"
    using decode_effects [of dev buf cb d] by (auto simp: newEffects_append)
  moreover have "list_all stop_is_safe (newEffects (drain dev cb) d)"
    using drain_effects [of dev cb d] by (auto simp: newEffects_append)
  moreover have "list_all stop_is_safe (newEffects (flush dev) d)"
    using flush_effects [of dev d] by (auto simp: newEffects_append)
  moreover have "mState d = Decoding \<and> mDecodeRequests d = request # rest \<and> buffer request = None
        \<and> queuedBuffersCount (mInputQueue d) > 0
       \<longrightarrow> pumpDecodeRequest dev d = d"
    by (subst pumpDecodeRequest_def, subst pumpLoop.simps) auto
  ultimately show ?thesis by blast
qed

text \<open>
  A concrete case of C5: draining a decoding decoder with no queued input issues STOP
  at count zero; with three input buffers queued the sentinel waits.
\<close>

theorem C5_stop_only_without_queued_input_witness:
  "newEffects (drain exampleDevice OnDrainDone) (exampleDecoder Decoding)
     = [IoctlDecoderCmd False 0]
   \<and> mState (drain exampleDevice OnDrainDone (exampleDecoder Decoding)) = Draining
   \<and> pumpDecodeRequest exampleDevice
        ((exampleDecoder Decoding)
           \<lparr>mDecodeRequests := [\<lparr>buffer = None, decodeCb = OnDrainDone\<rparr>],
            mInputQueue := exampleQueue 13 3\<rparr>)
      = (exampleDecoder Decoding)
           \<lparr>mDecodeRequests := [\<lparr>buffer = None, decodeCb = OnDrainDone\<rparr>],
            mInputQueue := exampleQueue 13 3\<rparr>"
  using C5_stop_only_without_queued_input
          [where dev = exampleDevice and cb = OnDrainDone
             and d = "(exampleDecoder Decoding)
                        \<lparr>mDecodeRequests := [\<lparr>buffer = None, decodeCb = OnDrainDone\<rparr>],
                         mInputQueue := exampleQueue 13 3\<rparr>"
             and request = "\<lparr>buffer = None, decodeCb = OnDrainDone\<rparr>" and rest = "[]"]
  by (simp add: newEffects_def drain_def pumpDecodeRequest_def pumpLoop.simps
        sendV4L2DecoderCmd_def setState_def emit_def exampleDecoder_def exampleQueue_def
        exampleDevice_def)

section \<open>Flushing twice\<close>

lemma flush_settled:
  "mState d = Idle \<or> mState d = Error \<Longrightarrow> flush dev d = d"
  by (auto simp: flush_def)

lemma reportAbandonedWorks_nothing:
  "mPendingWorks c = [] \<Longrightarrow> mWorksAtDecoder c = [] \<Longrightarrow> reportAbandonedWorks c = c"
  by (cases c) (simp add: reportAbandonedWorks_def)

lemma flushTask_settled:
  assumes "mState (mDecoder c) = Idle \<or> mState (mDecoder c) = Error"
    and "mPendingWorks c = []" and "mWorksAtDecoder c = []" and "\<not> mIsDraining c"
  shows "flushTask dev c = Some c"
proof -
  have same: "flush dev (mDecoder c) = mDecoder c"
    using assms(1) by (rule flush_settled)
  have "callDecoder (flush dev) c = Some c"
    by (simp add: callDecoder_def newEffects_def same)
  moreover have "(reportAbandonedWorks c)\<lparr>mIsDraining := False\<rparr> = c"
    using assms(2-4) by (cases c) (simp add: reportAbandonedWorks_def)
  ultimately show ?thesis by (simp add: flushTask_def)
qed

lemma flushTask_result:
  assumes "flushTask dev c = Some c1"
  shows "mDecoder c1 = flush dev (mDecoder c) \<and> mPendingWorks c1 = []
         \<and> mWorksAtDecoder c1 = [] \<and> \<not> mIsDraining c1"
proof -
  from assms obtain c0 where call: "callDecoder (flush dev) c = Some c0"
    and c1: "c1 = (reportAbandonedWorks c0)\<lparr>mIsDraining := False\<rparr>"
    by (auto simp: flushTask_def split: option.splits)
  have "mDecoder c0 = flush dev (mDecoder c)"
    using call by (rule callDecoder_decoder)
  moreover have "mWorksAtDecoder (reportAbandonedWorks c0) = []"
    by (simp add: reportAbandonedWorks_def Let_def split: option.splits)
  ultimately show ?thesis
    by (simp add: c1 reportAbandonedWorks_decoder reportAbandonedWorks_pending)
qed

text \<open>
  C7 as stated says the decoder is Idle after the first flush. It need not be: when
  polling does not start again at the end of the first flush, the decoder (and with it
  the component) is in Error after it.
\<close>

theorem C7_flush_twice_counterexample:
  "map_option (\<lambda>c. (mState (mDecoder c), mComponentState c))
     (flushTask pollFailDevice
        ((exampleComponent Decoding)
           \<lparr>mWorksAtDecoder := [(1, exampleWork 0 1 [Some exampleBlock])],
            mDecoder := (exampleDecoder Decoding)
                          \<lparr>mPendingDecodeCbs := [(1, OnDecodeDone 1)],
                           mInputQueue := exampleQueue 15 1\<rparr>\<rparr>))
   = Some (Error, ERROR)"
  by (simp add: flushTask_def callDecoder_def newEffects_def flush_def abortPendingCallbacks_def
        restartQueues_def streamoff_def streamon_def onError_def setState_def emit_def
        runCallback_def onDecodeDone_def pumpReportWork_def reportWorkIfFinished_def
        isWorkDone_def map_update_def reportError_def reportAbandonedWorks_def resetFront_def
        pollFailDevice_def example_defs)

text \<open>
  C7, amended. If the flush task runs twice with nothing in between, the second run
  returns the component exactly as the first run left it, whatever the device answers:
  no call to the listener is added (no works emitted), and \<open>mPendingWorks\<close> (empty),
  \<open>mWorksAtDecoder\<close> (empty), \<open>mIsDraining\<close> (false) and the decoder are unchanged.
  The decoder state after the first flush is Idle or Error; it is Idle when the decoder
  was not in Error before and polling starts again.
\<close>

theorem C7_flush_twice:
  assumes "flushTask dev c = Some c1"
  shows "flushTask dev' c1 = Some c1
         \<and> mPendingWorks c1 = [] \<and> mWorksAtDecoder c1 = [] \<and> \<not> mIsDraining c1
         \<and> (mState (mDecoder c1) = Idle \<or> mState (mDecoder c1) = Error)
         \<and> (mState (mDecoder c) \<noteq> Error \<and> (\<forall>n. startPollingOk dev n)
              \<longrightarrow> mState (mDecoder c1) = Idle)"
proof -
  note r = flushTask_result [OF assms]
  have st: "mState (mDecoder c1) = Idle \<or> mState (mDecoder c1) = Error"
    using r flush_state [of dev "mDecoder c"] by simp
  have "flushTask dev' c1 = Some c1"
    using st r by (intro flushTask_settled) simp_all
  moreover have "mState (mDecoder c) \<noteq> Error \<and> (\<forall>n. startPollingOk dev n)
              \<longrightarrow> mState (mDecoder c1) = Idle"
    using r flush_state_polling [of "mDecoder c" dev] by simp
  ultimately show ?thesis using r st by simp
qed

text \<open>
  A concrete case of C7: one work at the decoder, its input queued to the device. The
  first flush aborts its decode and abandons it in one batch; the second changes nothing.
\<close>

theorem C7_flush_twice_witness:
  "flushTask exampleDevice
        ((exampleComponent Decoding)
           \<lparr>mWorksAtDecoder := [(1, exampleWork 0 1 [Some exampleBlock])],
            mDecoder := (exampleDecoder Decoding)
                          \<lparr>mPendingDecodeCbs := [(1, OnDecodeDone 1)],
                           mInputQueue := exampleQueue 15 1\<rparr>\<rparr>)
     = Some ((exampleComponent Idle)
               \<lparr>mOutputBitstreamIds := [1],
                mDecoder := (exampleDecoder Idle)
                              \<lparr>devCalls := 3,
                               effects := [RunCb (OnDecodeDone 1) kAborted]\<rparr>,
                listenerCalls :=
                  [(7, onWorkDone_nb
                         [(exampleWork 0 1 [None])\<lparr>result := C2_NOT_FOUND\<rparr>])]\<rparr>)
   \<and> flushTask exampleDevice
        ((exampleComponent Idle)
               \<lparr>mOutputBitstreamIds := [1],
                mDecoder := (exampleDecoder Idle)
                              \<lparr>devCalls := 3,
                               effects := [RunCb (OnDecodeDone 1) kAborted]\<rparr>,
                listenerCalls :=
                  [(7, onWorkDone_nb
                         [(exampleWork 0 1 [None])\<lparr>result := C2_NOT_FOUND\<rparr>])]\<rparr>)
     = Some ((exampleComponent Idle)
               \<lparr>mOutputBitstreamIds := [1],
                mDecoder := (exampleDecoder Idle)
                              \<lparr>devCalls := 3,
                               effects := [RunCb (OnDecodeDone 1) kAborted]\<rparr>,
                listenerCalls :=
                  [(7, onWorkDone_nb
                         [(exampleWork 0 1 [None])\<lparr>result := C2_NOT_FOUND\<rparr>])]\<rparr>)"
proof -
  have first: "flushTask exampleDevice
        ((exampleComponent Decoding)
           \<lparr>mWorksAtDecoder := [(1, exampleWork 0 1 [Some exampleBlock])],
            mDecoder := (exampleDecoder Decoding)
                          \<lparr>mPendingDecodeCbs := [(1, OnDecodeDone 1)],
                           mInputQueue := exampleQueue 15 1\<rparr>\<rparr>)
     = Some ((exampleComponent Idle)
               \<lparr>mOutputBitstreamIds := [1],
                mDecoder := (exampleDecoder Idle)
                              \<lparr>devCalls := 3,
                               effects := [RunCb (OnDecodeDone 1) kAborted]\<rparr>,
                listenerCalls :=
                  [(7, onWorkDone_nb
                         [(exampleWork 0 1 [None])\<lparr>result := C2_NOT_FOUND\<rparr>])]\<rparr>)"
    by (simp add: flushTask_def callDecoder_def newEffects_def flush_def abortPendingCallbacks_def
        restartQueues_def streamoff_def streamon_def onError_def setState_def emit_def
        runCallback_def onDecodeDone_def pumpReportWork_def reportWorkIfFinished_def
        isWorkDone_def map_update_def reportError_def reportAbandonedWorks_def resetFront_def
        example_defs)
  from C7_flush_twice [OF first, of exampleDevice] first show ?thesis by simp
qed

section \<open>Draining the decoder\<close>






section \<open>The drain task\<close>

lemma reportWorkIfFinished_draining:
  "reportWorkIfFinished i c = Some (b, c') \<Longrightarrow> mIsDraining c' = mIsDraining c"
  by (auto simp: reportWorkIfFinished_def reportWork_def
           split: if_splits option.splits bool.splits list.splits)

lemma reportWorkIfFinished_keeps:
  "reportWorkIfFinished i c = Some r \<Longrightarrow>
   mDecoder (snd r) = mDecoder c \<and> mIsDraining (snd r) = mIsDraining c"
  by (cases r) (simp add: reportWorkIfFinished_decoder reportWorkIfFinished_draining)

lemma flag_set_after_or: "(x OR FLAG_END_OF_STREAM) AND FLAG_END_OF_STREAM \<noteq> 0"
  by (simp add: FLAG_END_OF_STREAM_def word_ao_absorbs)

lemma last_flag_set:
  "input_flags (w\<lparr>input_flags := input_flags w OR FLAG_END_OF_STREAM\<rparr>) AND FLAG_END_OF_STREAM \<noteq> 0"
  using flag_set_after_or [of "input_flags w"] by simp

lemma drainTask_pending:
  assumes "mPendingWorks c \<noteq> []"
  shows "drainTask dev c =
           Some (c\<lparr>mPendingWorks :=
                     butlast (mPendingWorks c) @
                     [(last (mPendingWorks c))
                        \<lparr>input_flags :=
                           input_flags (last (mPendingWorks c)) OR FLAG_END_OF_STREAM\<rparr>]\<rparr>)"
  using assms by (simp add: drainTask_def)

lemma drainTask_at_decoder:
  assumes "mPendingWorks c = []" and "mWorksAtDecoder c \<noteq> []"
  shows "drainTask dev c =
           map_option (\<lambda>c1. c1\<lparr>mIsDraining := True\<rparr>) (callDecoder (drain dev OnDrainDone) c)"
    and "drainTask dev c = Some c' \<Longrightarrow>
           mIsDraining c' \<and> mDecoder c' = drain dev OnDrainDone (mDecoder c)"
  using assms by (auto simp: drainTask_def dest!: callDecoder_decoder)

lemma pumpPendingStep_eos:
  assumes "mPendingWorks c = w # ws" and "input_flags w AND FLAG_END_OF_STREAM \<noteq> 0"
    and "pumpPendingStep dev intf c = Some (True, c')"
  shows "mIsDraining c' \<and>
         mDecoder c' =
           drain dev OnDrainDone
             (case input_buffers w of
                Some linearBlock # _ \<Rightarrow>
                  decode dev
                    \<lparr>bb_id = frameIndexToBitstreamId (frameIndex (input_ordinal w)),
                     bb_offset = blk_offset linearBlock, bb_size = blk_size linearBlock,
                     bb_fd = blk_fd linearBlock\<rparr>
                    (OnDecodeDone (frameIndexToBitstreamId (frameIndex (input_ordinal w))))
                    (mDecoder c)
              | _ \<Rightarrow> mDecoder c)"
  using assms
  by (auto simp: pumpPendingStep_def Let_def
           split: list.splits option.splits if_splits bool.splits prod.splits
           dest!: callDecoder_decoder reportWorkIfFinished_keeps)

text \<open>
  C10. The drain task is posted by \<open>drain_nb\<close> for the mode COMPONENT_WITH_EOS of a
  running component. When it runs while \<open>mPendingWorks\<close> is non-empty it only ORs
  END_OF_STREAM into the input flags of the last pending work: the decoder is not
  called (it is unchanged) and \<open>mIsDraining\<close> keeps its value. The decoder drain is
  issued when a work carrying END_OF_STREAM is pumped: an iteration of the pump that
  runs to its end on such a work leaves \<open>mIsDraining\<close> set and the decoder as \<open>drain\<close>
  leaves it (after the decode of the work's buffer, if it has one). When
  \<open>mPendingWorks\<close> is empty and \<open>mWorksAtDecoder\<close> is not, the task calls the decoder's
  \<open>drain\<close> and sets \<open>mIsDraining\<close>. When both are empty the task changes nothing.
\<close>

theorem C10_drainTask:
  "(mPendingWorks c \<noteq> [] \<longrightarrow>
      drainTask dev c =
        Some (c\<lparr>mPendingWorks :=
                  butlast (mPendingWorks c) @
                  [(last (mPendingWorks c))
                     \<lparr>input_flags :=
                        input_flags (last (mPendingWorks c)) OR FLAG_END_OF_STREAM\<rparr>]\<rparr>)
      \<and> (\<forall>c'. drainTask dev c = Some c' \<longrightarrow>
             mDecoder c' = mDecoder c \<and> mIsDraining c' = mIsDraining c
             \<and> input_flags (last (mPendingWorks c')) AND FLAG_END_OF_STREAM \<noteq> 0))
   \<and> (mPendingWorks c = [] \<and> mWorksAtDecoder c \<noteq> [] \<longrightarrow>
        drainTask dev c =
          map_option (\<lambda>c1. c1\<lparr>mIsDraining := True\<rparr>) (callDecoder (drain dev OnDrainDone) c)
        \<and> (\<forall>c'. drainTask dev c = Some c' \<longrightarrow>
               mIsDraining c' \<and> mDecoder c' = drain dev OnDrainDone (mDecoder c)))
   \<and> (mPendingWorks c = [] \<and> mWorksAtDecoder c = [] \<longrightarrow> drainTask dev c = Some c)
   \<and> (\<forall>w ws c'. mPendingWorks c = w # ws \<and> input_flags w AND FLAG_END_OF_STREAM \<noteq> 0
                  \<and> pumpPendingStep dev intf c = Some (True, c') \<longrightarrow>
         mIsDraining c' \<and>
         mDecoder c' =
           drain dev OnDrainDone
             (case input_buffers w of
                Some linearBlock # _ \<Rightarrow>
                  decode dev
                    \<lparr>bb_id = frameIndexToBitstreamId (frameIndex (input_ordinal w)),
                     bb_offset = blk_offset linearBlock, bb_size = blk_size linearBlock,
                     bb_fd = blk_fd linearBlock\<rparr>
                    (OnDecodeDone (frameIndexToBitstreamId (frameIndex (input_ordinal w))))
                    (mDecoder c)
              | _ \<Rightarrow> mDecoder c))
   \<and> drain_nb DRAIN_COMPONENT_WITH_EOS c =
       (if mComponentState c = RUNNING
        then (C2_OK, c\<lparr>postedTasks := postedTasks c @ [DrainTask]\<rparr>)
        else (C2_BAD_STATE, c))"
proof -
  have a: "mPendingWorks c \<noteq> [] \<longrightarrow>
      drainTask dev c =
        Some (c\<lparr>mPendingWorks :=
                  butlast (mPendingWorks c) @
                  [(last (mPendingWorks c))
                     \<lparr>input_flags :=
                        input_flags (last (mPendingWorks c)) OR FLAG_END_OF_STREAM\<rparr>]\<rparr>)
      \<and> (\<forall>c'. drainTask dev c = Some c' \<longrightarrow>
             mDecoder c' = mDecoder c \<and> mIsDraining c' = mIsDraining c
             \<and> input_flags (last (mPendingWorks c')) AND FLAG_END_OF_STREAM \<noteq> 0)"
    using last_flag_set [of "last (mPendingWorks c)"] by (auto simp: drainTask_pending)
  have b: "mPendingWorks c = [] \<and> mWorksAtDecoder c \<noteq> [] \<longrightarrow>
        drainTask dev c =
          map_option (\<lambda>c1. c1\<lparr>mIsDraining := True\<rparr>) (callDecoder (drain dev OnDrainDone) c)
        \<and> (\<forall>c'. drainTask dev c = Some c' \<longrightarrow>
               mIsDraining c' \<and> mDecoder c' = drain dev OnDrainDone (mDecoder c))"
    using drainTask_at_decoder [of c dev] by blast
  have c: "mPendingWorks c = [] \<and> mWorksAtDecoder c = [] \<longrightarrow> drainTask dev c = Some c"
    by (simp add: drainTask_def)
  have d: "\<forall>w ws c'. mPendingWorks c = w # ws \<and> input_flags w AND FLAG_END_OF_STREAM \<noteq> 0
                  \<and> pumpPendingStep dev intf c = Some (True, c') \<longrightarrow>
         mIsDraining c' \<and>
         mDecoder c' =
           drain dev OnDrainDone
             (case input_buffers w of
                Some linearBlock # _ \<Rightarrow>
                  decode dev
                    \<lparr>bb_id = frameIndexToBitstreamId (frameIndex (input_ordinal w)),
                     bb_offset = blk_offset linearBlock, bb_size = blk_size linearBlock,
                     bb_fd = blk_fd linearBlock\<rparr>
                    (OnDecodeDone (frameIndexToBitstreamId (frameIndex (input_ordinal w))))
                    (mDecoder c)
              | _ \<Rightarrow> mDecoder c)"
    using pumpPendingStep_eos [of c _ _ dev intf] by blast
  have e: "drain_nb DRAIN_COMPONENT_WITH_EOS c =
       (if mComponentState c = RUNNING
        then (C2_OK, c\<lparr>postedTasks := postedTasks c @ [DrainTask]\<rparr>)
        else (C2_BAD_STATE, c))"
    by (simp add: drain_nb_def)
  from a b c d e show ?thesis by blast
qed

text \<open>Concrete cases of C10, one for each branch and one for the pump.\<close>

theorem C10_drainTask_witness:
  "drainTask exampleDevice queuedBehindDrain
     = Some (queuedBehindDrain
               \<lparr>mPendingWorks := [exampleWork FLAG_END_OF_STREAM 5 [Some exampleBlock]]\<rparr>)
   \<and> drainTask exampleDevice oneWorkAtDecoder
     = Some (oneWorkAtDecoder
               \<lparr>mIsDraining := True,
                mDecoder := (exampleDecoder Draining)
                              \<lparr>mDrainCb := Some OnDrainDone, devCalls := 1,
                               effects := [IoctlDecoderCmd False 0]\<rparr>\<rparr>)
   \<and> drainTask exampleDevice (exampleComponent Idle) = Some (exampleComponent Idle)
   \<and> pumpPendingStep exampleDevice exampleInterface eosPending = Some (True, eosPumped)
   \<and> mIsDraining eosPumped
   \<and> mDecoder eosPumped = drain exampleDevice OnDrainDone (mDecoder eosPending)"
proof -
  have a0: "mPendingWorks queuedBehindDrain \<noteq> []"
    by (simp add: queuedBehindDrain_def exampleComponent_def)
  have a: "drainTask exampleDevice queuedBehindDrain
     = Some (queuedBehindDrain
               \<lparr>mPendingWorks := [exampleWork FLAG_END_OF_STREAM 5 [Some exampleBlock]]\<rparr>)"
    using C10_drainTask [of queuedBehindDrain exampleDevice exampleInterface,
                         THEN conjunct1, rule_format, OF a0, THEN conjunct1]
    by (simp add: queuedBehindDrain_def exampleComponent_def exampleWork_def
          FLAG_END_OF_STREAM_def)
  have b0: "mPendingWorks oneWorkAtDecoder = [] \<and> mWorksAtDecoder oneWorkAtDecoder \<noteq> []"
    by (simp add: oneWorkAtDecoder_def exampleComponent_def)
  have b: "drainTask exampleDevice oneWorkAtDecoder
     = Some (oneWorkAtDecoder
               \<lparr>mIsDraining := True,
                mDecoder := (exampleDecoder Draining)
                              \<lparr>mDrainCb := Some OnDrainDone, devCalls := 1,
                               effects := [IoctlDecoderCmd False 0]\<rparr>\<rparr>)"
    using C10_drainTask [of oneWorkAtDecoder exampleDevice exampleInterface,
                         THEN conjunct2, THEN conjunct1, rule_format, OF b0, THEN conjunct1]
    by (simp add: oneWorkAtDecoder_def callDecoder_def newEffects_def drain_def
          pumpDecodeRequest_def pumpLoop.simps sendV4L2DecoderCmd_def setState_def emit_def
          exampleComponent_def exampleDecoder_def exampleQueue_def exampleDevice_def)
  have c0: "mPendingWorks (exampleComponent Idle) = []
            \<and> mWorksAtDecoder (exampleComponent Idle) = []"
    by (simp add: exampleComponent_def)
  have c: "drainTask exampleDevice (exampleComponent Idle) = Some (exampleComponent Idle)"
    using C10_drainTask [of "exampleComponent Idle" exampleDevice exampleInterface,
                         THEN conjunct2, THEN conjunct2, THEN conjunct1, rule_format, OF c0] .
  have d0: "pumpPendingStep exampleDevice exampleInterface eosPending = Some (True, eosPumped)"
    by (simp add: pumpPendingStep_def callDecoder_def newEffects_def drain_def emit_def
          frameIndexToBitstreamId_def eosPending_def eosPumped_def eosWork_def example_defs)
  have d1: "mPendingWorks eosPending = eosWork # []
            \<and> input_flags eosWork AND FLAG_END_OF_STREAM \<noteq> 0
            \<and> pumpPendingStep exampleDevice exampleInterface eosPending = Some (True, eosPumped)"
    using d0 by (simp add: eosPending_def eosWork_def example_defs)
  have d: "mIsDraining eosPumped
           \<and> mDecoder eosPumped = drain exampleDevice OnDrainDone (mDecoder eosPending)"
    using C10_drainTask [of eosPending exampleDevice exampleInterface,
                         THEN conjunct2, THEN conjunct2, THEN conjunct2, THEN conjunct1,
                         rule_format, OF d1]
    by (simp add: eosWork_def exampleWork_def)
  from a b c d0 d show ?thesis by simp
qed

end
